theory Spec2Isabelle
  imports Complex_Main
begin

section \<open>Values, errors and effects\<close>

text \<open>
  The module \<^verbatim>\<open>src/aloha/robot_utils.py\<close> computes with Python and numpy floats.
  Finite floating-point numbers are modelled by the reals with exact arithmetic, so
  rounding is not part of the model. The non-finite results that numpy returns where
  Python would raise (the mean of an empty array, a division by zero) are kept as
  values of their own.
\<close>

datatype error = AttributeError | IndexError | ValueError | ZeroDivisionError | CvBridgeError

datatype float64 = Fin real | PInf | NInf | NaN

text \<open>
  Each call that drives the robot returns normally or raises, and in both cases the
  commands issued so far stay issued: the result is the pair of the outcome
  and the list of effects, oldest first.
\<close>

datatype effect =
    SetJointPositions nat "real list"
  | PublishGripper nat real
  | Sleep real

type_synonym 'a raising = "error + 'a"

section \<open>Rate estimation\<close>

text \<open>\<^verbatim>\<open>np.mean\<close> of an empty array is nan (numpy warns and does not raise).\<close>

definition np_mean :: "real list \<Rightarrow> float64" where
  "np_mean xs = (if xs = [] then NaN else Fin (sum_list xs / real (length xs)))"

text \<open>
  \<^verbatim>\<open>1 / x\<close> for a numpy scalar \<open>x\<close>: division by zero gives inf and 1 / nan is nan,
  neither raises.
\<close>

fun one_over :: "float64 \<Rightarrow> float64" where
  "one_over (Fin x) = (if x = 0 then PInf else Fin (1 / x))"
| "one_over PInf = Fin 0"
| "one_over NInf = Fin 0"
| "one_over NaN = NaN"

text \<open>
  \<^verbatim>\<open>dt_helper\<close> is defined twice in the source, with the same text, inside the two
  \<^verbatim>\<open>print_diagnostics\<close> methods: \<^verbatim>\<open>diff = ts[1:] - ts[:-1]; return np.mean(diff)\<close>.
\<close>

definition dt_helper :: "real list \<Rightarrow> float64" where
  "dt_helper ts = (let diff = map2 (-) (drop 1 ts) (butlast ts) in np_mean diff)"

section \<open>ImageRecorder\<close>

text \<open>\<^verbatim>\<open>deque(maxlen=50).append\<close>: a full deque drops its oldest element.\<close>

definition deque_append :: "'a list \<Rightarrow> 'a \<Rightarrow> 'a list" where
  "deque_append d x = (if length d < 50 then d @ [x] else drop 1 d @ [x])"

record 'p image_msg =
  stamp_secs :: int
  stamp_nsecs :: int
  img_data :: 'p

text \<open>
  The recorder keeps the attributes \<^verbatim>\<open>{cam_name}_image\<close>, \<^verbatim>\<open>{cam_name}_secs\<close>,
  \<^verbatim>\<open>{cam_name}_nsecs\<close> and \<^verbatim>\<open>{cam_name}_timestamps\<close>, created by name. Each family is
  a map from the camera name: an absent key is an absent attribute, and the inner
  \<open>option\<close> of the first three is Python's \<^verbatim>\<open>None\<close>.
\<close>

record 'i image_recorder =
  ir_is_debug :: bool
  camera_names :: "string list"
  cam_image :: "string \<rightharpoonup> 'i option"
  cam_secs :: "string \<rightharpoonup> int option"
  cam_nsecs :: "string \<rightharpoonup> int option"
  cam_timestamps :: "string \<rightharpoonup> real list"

definition ImageRecorder_init :: "bool \<Rightarrow> bool \<Rightarrow> 'i image_recorder" where
  "ImageRecorder_init is_mobile is_debug =
     (let names = (if is_mobile
                   then [''cam_high'', ''cam_left_wrist'', ''cam_right_wrist'']
                   else [''cam_high'', ''cam_low'', ''cam_left_wrist'', ''cam_right_wrist''])
      in \<lparr> ir_is_debug = is_debug,
           camera_names = names,
           cam_image = map_of (map (\<lambda>n. (n, None)) names),
           cam_secs = map_of (map (\<lambda>n. (n, None)) names),
           cam_nsecs = map_of (map (\<lambda>n. (n, None)) names),
           cam_timestamps = (if is_debug then map_of (map (\<lambda>n. (n, [])) names) else Map.empty) \<rparr>)"

text \<open>
  \<^verbatim>\<open>image_cb\<close>. The codec \<^verbatim>\<open>self.bridge.imgmsg_to_cv2\<close> is an external service, taken
  as a parameter that converts the payload or raises. The three \<^verbatim>\<open>setattr\<close> calls come
  first, so a missing history attribute raises after they have taken effect.
\<close>

definition image_cb ::
  "('p \<Rightarrow> 'i raising) \<Rightarrow> string \<Rightarrow> 'p image_msg \<Rightarrow> 'i image_recorder
     \<Rightarrow> unit raising \<times> 'i image_recorder" where
  "image_cb imgmsg_to_cv2 cam_name data self =
     (case imgmsg_to_cv2 (img_data data) of
        Inl e \<Rightarrow> (Inl e, self)
      | Inr img \<Rightarrow>
          (let self1 = self\<lparr> cam_image := (cam_image self)(cam_name \<mapsto> Some img) \<rparr>;
               self2 = self1\<lparr> cam_secs := (cam_secs self1)(cam_name \<mapsto> Some (stamp_secs data)) \<rparr>;
               self3 = self2\<lparr> cam_nsecs := (cam_nsecs self2)(cam_name \<mapsto> Some (stamp_nsecs data)) \<rparr>
           in if ir_is_debug self3
              then (case cam_timestamps self3 cam_name of
                      None \<Rightarrow> (Inl AttributeError, self3)
                    | Some ts \<Rightarrow>
                        (Inr (),
                         self3\<lparr> cam_timestamps := (cam_timestamps self3)(cam_name \<mapsto>
                           deque_append ts
                             (real_of_int (stamp_secs data)
                                + real_of_int (stamp_secs data) * (1 / 10 ^ 9))) \<rparr>))
              else (Inr (), self3)))"

text \<open>
  \<^verbatim>\<open>ImageRecorder.print_diagnostics\<close>: one printed line per camera, kept as the camera
  name and the frequency value. A line printed before a later camera raises stays
  printed.
\<close>

fun image_diagnostics_loop ::
  "'i image_recorder \<Rightarrow> string list \<Rightarrow> (string \<times> float64) list
     \<Rightarrow> unit raising \<times> (string \<times> float64) list" where
  "image_diagnostics_loop self [] out = (Inr (), out)"
| "image_diagnostics_loop self (cam_name # rest) out =
     (case cam_timestamps self cam_name of
        None \<Rightarrow> (Inl AttributeError, out)
      | Some ts \<Rightarrow>
          (let image_freq = one_over (dt_helper ts)
           in image_diagnostics_loop self rest (out @ [(cam_name, image_freq)])))"

definition ImageRecorder_print_diagnostics ::
  "'i image_recorder \<Rightarrow> unit raising \<times> (string \<times> float64) list" where
  "ImageRecorder_print_diagnostics self = image_diagnostics_loop self (camera_names self) []"

section \<open>Recorder\<close>

text \<open>
  The three timestamp histories exist only when the recorder was built with
  \<^verbatim>\<open>is_debug\<close>: \<open>None\<close> is the absent attribute.
\<close>

record recorder =
  rec_is_debug :: bool
  joint_timestamps :: "real list option"
  arm_command_timestamps :: "real list option"
  gripper_command_timestamps :: "real list option"

definition Recorder_init :: "bool \<Rightarrow> recorder" where
  "Recorder_init is_debug =
     \<lparr> rec_is_debug = is_debug,
       joint_timestamps = (if is_debug then Some [] else None),
       arm_command_timestamps = (if is_debug then Some [] else None),
       gripper_command_timestamps = (if is_debug then Some [] else None) \<rparr>"

text \<open>
  \<^verbatim>\<open>Recorder.print_diagnostics\<close> computes the three frequencies and then prints them
  in one call, so it prints all three lines or raises before printing.
\<close>

definition Recorder_print_diagnostics :: "recorder \<Rightarrow> (string \<times> float64) list raising" where
  "Recorder_print_diagnostics self =
     (case joint_timestamps self of
        None \<Rightarrow> Inl AttributeError
      | Some jts \<Rightarrow>
          (let joint_freq = one_over (dt_helper jts)
           in case arm_command_timestamps self of
                None \<Rightarrow> Inl AttributeError
              | Some ats \<Rightarrow>
                  (let arm_command_freq = one_over (dt_helper ats)
                   in case gripper_command_timestamps self of
                        None \<Rightarrow> Inl AttributeError
                      | Some gts \<Rightarrow>
                          (let gripper_command_freq = one_over (dt_helper gts)
                           in Inr [(''joint_freq'', joint_freq),
                                   (''arm_command_freq'', arm_command_freq),
                                   (''gripper_command_freq'', gripper_command_freq)]))))"

section \<open>Trajectory interpolation and playback\<close>

text \<open>
  A robot as this module reads it: the reported position vectors behind
  \<^verbatim>\<open>bot.arm.core.joint_states.position\<close> and \<^verbatim>\<open>bot.gripper.core.joint_states.position\<close>.
\<close>

record bot =
  arm_position :: "real list"
  gripper_position :: "real list"

definition get_arm_joint_positions :: "bot \<Rightarrow> real list" where
  "get_arm_joint_positions b = take 6 (arm_position b)"

definition get_arm_gripper_positions :: "bot \<Rightarrow> real raising" where
  "get_arm_gripper_positions b =
     (if 6 < length (gripper_position b) then Inr (gripper_position b ! 6) else Inl IndexError)"

text \<open>Python's \<^verbatim>\<open>int\<close> on a float truncates towards zero.\<close>

definition py_int :: "real \<Rightarrow> int" where
  "py_int x = (if 0 \<le> x then \<lfloor>x\<rfloor> else \<lceil>x\<rceil>)"

text \<open>A list comprehension whose element may raise: the first raise, left to right, wins.\<close>

fun collect :: "'a raising list \<Rightarrow> 'a list raising" where
  "collect [] = Inr []"
| "collect (r # rs) =
     (case r of
        Inl e \<Rightarrow> Inl e
      | Inr v \<Rightarrow> (case collect rs of Inl e \<Rightarrow> Inl e | Inr vs \<Rightarrow> Inr (v # vs)))"

text \<open>
  \<^verbatim>\<open>np.linspace(start, stop, num)\<close> as numpy computes it, with the default
  \<^verbatim>\<open>endpoint=True\<close>: a negative \<open>num\<close> raises; \<open>div = num - 1\<close>; the samples are
  \<open>k * step + start\<close> for \<open>k = 0, ..., num - 1\<close> with \<open>step = delta / div\<close> (computed as
  \<open>k / div * delta\<close> when a step is zero, and as \<open>k * delta\<close> when \<open>div\<close> is not
  positive); for \<open>num > 1\<close> the last sample is then overwritten with \<open>stop\<close>.
\<close>

definition linspace :: "real \<Rightarrow> real \<Rightarrow> int \<Rightarrow> real list raising" where
  "linspace start stop num =
     (if num < 0 then Inl ValueError
      else
        (let n = nat num;
             dv = real_of_int (num - 1);
             delta = stop - start;
             y = map real [0..<n];
             y1 = (if 0 < dv
                   then (let step = delta / dv
                         in if step = 0 then map (\<lambda>k. k / dv * delta) y
                            else map (\<lambda>k. k * step) y)
                   else map (\<lambda>k. k * delta) y);
             y2 = map (\<lambda>v. v + start) y1
         in Inr (if 1 < num then y2[n - 1 := stop] else y2)))"

text \<open>
  With vectors for \<open>start\<close> and \<open>stop\<close> numpy broadcasts the two shapes first: equal
  lengths, or one of them of length 1, and raises otherwise. The result has one row
  per sample.
\<close>

definition broadcast :: "real list \<Rightarrow> real list \<Rightarrow> (real list \<times> real list) raising" where
  "broadcast xs ys =
     (if length xs = length ys then Inr (xs, ys)
      else if length xs = 1 then Inr (replicate (length ys) (xs ! 0), ys)
      else if length ys = 1 then Inr (xs, replicate (length xs) (ys ! 0))
      else Inl ValueError)"

definition linspace_vec :: "real list \<Rightarrow> real list \<Rightarrow> int \<Rightarrow> real list list raising" where
  "linspace_vec start stop num =
     (if num < 0 then Inl ValueError
      else
        (case broadcast start stop of
           Inl e \<Rightarrow> Inl e
         | Inr (start', stop') \<Rightarrow>
             (let n = nat num;
                  dv = real_of_int (num - 1);
                  delta = map2 (-) stop' start';
                  y = map real [0..<n];
                  y1 = (if 0 < dv
                        then (let step = map (\<lambda>d. d / dv) delta
                              in if 0 \<in> set step
                                 then map (\<lambda>k. map (\<lambda>d. k / dv * d) delta) y
                                 else map (\<lambda>k. map (\<lambda>s. k * s) step) y)
                        else map (\<lambda>k. map (\<lambda>d. k * d) delta) y);
                  y2 = map (\<lambda>row. map2 (+) row start') y1
              in Inr (if 1 < num then y2[n - 1 := stop'] else y2))))"

text \<open>
  The inner loop of both players, \<^verbatim>\<open>for bot_id, bot in enumerate(bot_list)\<close>: it reads
  \<^verbatim>\<open>traj_list[bot_id][t]\<close>, which raises where \<^verbatim>\<open>traj_list\<close> is too short, and sends
  it. \<open>send\<close> is the command of the player at hand.
\<close>

fun dispatch_step ::
  "(nat \<Rightarrow> 'w \<Rightarrow> effect) \<Rightarrow> 'w list list \<Rightarrow> nat \<Rightarrow> nat list \<Rightarrow> effect list
     \<Rightarrow> unit raising \<times> effect list" where
  "dispatch_step send traj_list t [] issued = (Inr (), issued)"
| "dispatch_step send traj_list t (bot_id # rest) issued =
     (if bot_id < length traj_list
      then (if t < length (traj_list ! bot_id)
            then dispatch_step send traj_list t rest
                   (issued @ [send bot_id (traj_list ! bot_id ! t)])
            else (Inl IndexError, issued))
      else (Inl IndexError, issued))"

text \<open>
  The outer loop, \<^verbatim>\<open>for t in range(num_steps)\<close>, with \<^verbatim>\<open>time.sleep(DT)\<close> after each step
  (which raises on a negative duration).
\<close>

fun playback ::
  "real \<Rightarrow> (nat \<Rightarrow> 'w \<Rightarrow> effect) \<Rightarrow> 'w list list \<Rightarrow> nat list \<Rightarrow> nat list \<Rightarrow> effect list
     \<Rightarrow> unit raising \<times> effect list" where
  "playback DT send traj_list ids [] issued = (Inr (), issued)"
| "playback DT send traj_list ids (t # ts) issued =
     (case dispatch_step send traj_list t ids issued of
        (Inl e, issued') \<Rightarrow> (Inl e, issued')
      | (Inr u, issued') \<Rightarrow>
          (if DT < 0 then (Inl ValueError, issued')
           else playback DT send traj_list ids ts (issued' @ [Sleep DT])))"

text \<open>
  The trajectories of \<^verbatim>\<open>move_arms\<close>: \<^verbatim>\<open>num_steps\<close>, the current poses, and one
  \<^verbatim>\<open>np.linspace\<close> per pair of the \<^verbatim>\<open>zip\<close>, which stops at the shorter list. \<open>DT\<close> is
  the constant of \<^verbatim>\<open>aloha.constants\<close>, a parameter here.
\<close>

definition arms_traj_list :: "bot list \<Rightarrow> real list list \<Rightarrow> int \<Rightarrow> real list list list raising" where
  "arms_traj_list bot_list target_pose_list num_steps =
     (let curr_pose_list = map get_arm_joint_positions bot_list;
          zipped_lists = zip curr_pose_list target_pose_list
      in collect (map (\<lambda>(curr_pose, target_pose). linspace_vec curr_pose target_pose num_steps)
                      zipped_lists))"

definition move_arms ::
  "real \<Rightarrow> bot list \<Rightarrow> real list list \<Rightarrow> real \<Rightarrow> unit raising \<times> effect list" where
  "move_arms DT bot_list target_pose_list move_time =
     (if DT = 0 then (Inl ZeroDivisionError, [])
      else
        (let num_steps = py_int (move_time / DT)
         in case arms_traj_list bot_list target_pose_list num_steps of
              Inl e \<Rightarrow> (Inl e, [])
            | Inr traj_list \<Rightarrow>
                playback DT SetJointPositions traj_list
                  [0..<length bot_list] [0..<nat num_steps] []))"

text \<open>
  \<^verbatim>\<open>move_grippers\<close>: the same player on scalars. Reading the current gripper
  position is \<^verbatim>\<open>position[6]\<close>, which raises on a shorter vector, for every robot of
  \<^verbatim>\<open>bot_list\<close> and before the \<^verbatim>\<open>zip\<close>.
\<close>

definition grippers_traj_list :: "bot list \<Rightarrow> real list \<Rightarrow> int \<Rightarrow> real list list raising" where
  "grippers_traj_list bot_list target_pose_list num_steps =
     (case collect (map get_arm_gripper_positions bot_list) of
        Inl e \<Rightarrow> Inl e
      | Inr curr_pose_list \<Rightarrow>
          (let zipped_lists = zip curr_pose_list target_pose_list
           in collect (map (\<lambda>(curr_pose, target_pose). linspace curr_pose target_pose num_steps)
                           zipped_lists)))"

definition move_grippers ::
  "real \<Rightarrow> bot list \<Rightarrow> real list \<Rightarrow> real \<Rightarrow> unit raising \<times> effect list" where
  "move_grippers DT bot_list target_pose_list move_time =
     (if DT = 0 then (Inl ZeroDivisionError, [])
      else
        (let num_steps = py_int (move_time / DT)
         in case grippers_traj_list bot_list target_pose_list num_steps of
              Inl e \<Rightarrow> (Inl e, [])
            | Inr traj_list \<Rightarrow>
                playback DT PublishGripper traj_list
                  [0..<length bot_list] [0..<nat num_steps] []))"

section \<open>Base-action filters\<close>

text \<open>
  \<^verbatim>\<open>calibrate_linear_vel\<close> on a one-dimensional array: \<^verbatim>\<open>base_action[..., 0]\<close> and
  \<^verbatim>\<open>base_action[..., 1]\<close> raise on an array with fewer than two entries; the result is
  a copy with entry 0 replaced. \<open>None\<close> for \<open>c\<close> is the default argument.
\<close>

definition calibrate_linear_vel :: "real list \<Rightarrow> real option \<Rightarrow> real list raising" where
  "calibrate_linear_vel base_action c_opt =
     (let c = (case c_opt of None \<Rightarrow> 0 | Some c' \<Rightarrow> c')
      in if length base_action < 2 then Inl IndexError
         else (let v = base_action ! 0;
                   w = base_action ! 1
               in Inr (base_action[0 := v - c * w])))"

text \<open>
  \<^verbatim>\<open>postprocess_base_action\<close> unpacks exactly two entries, and raises on any other
  number of them.
\<close>

definition postprocess_base_action :: "real list \<Rightarrow> real list raising" where
  "postprocess_base_action base_action =
     (case base_action of
        [linear_vel, angular_vel] \<Rightarrow> Inr [linear_vel, angular_vel * (9 / 10)]
      | _ \<Rightarrow> Inl ValueError)"

text \<open>
  The full discrete convolution, of length \<open>length a + length v - 1\<close>, and
  \<^verbatim>\<open>np.convolve(a, v, mode='same')\<close>: numpy swaps the arguments when \<open>v\<close> is the longer
  one, raises on an empty argument, and returns the middle \<open>max (length a) (length v)\<close>
  entries of the full convolution, from offset \<open>(min (length a) (length v) - 1) div 2\<close>.
\<close>

definition convolve_full :: "real list \<Rightarrow> real list \<Rightarrow> real list" where
  "convolve_full a v =
     map (\<lambda>k. \<Sum>i\<leftarrow>[0..<length a]. if i \<le> k \<and> k - i < length v then a ! i * v ! (k - i) else 0)
         [0..<length a + length v - 1]"

definition np_convolve_same :: "real list \<Rightarrow> real list \<Rightarrow> real list raising" where
  "np_convolve_same a0 v0 =
     (let (a, v) = (if length a0 < length v0 then (v0, a0) else (a0, v0))
      in if length a = 0 then Inl ValueError
         else if length v = 0 then Inl ValueError
         else Inr (take (length a) (drop ((length v - 1) div 2) (convolve_full a v))))"

text \<open>
  \<^verbatim>\<open>smooth_base_action\<close> on a sequence of two-component actions (an array of shape
  \<open>(T, 2)\<close>): each column is convolved with \<^verbatim>\<open>np.ones(5)/5\<close> and the two results are
  stacked back into rows. The final cast to 32-bit floats is a rounding of each
  entry and keeps the shape.
\<close>

definition smooth_base_action :: "(real \<times> real) list \<Rightarrow> (real \<times> real) list raising" where
  "smooth_base_action base_action =
     (let kernel = replicate 5 (1 / 5)
      in case np_convolve_same (map fst base_action) kernel of
           Inl e \<Rightarrow> Inl e
         | Inr c0 \<Rightarrow>
             (case np_convolve_same (map snd base_action) kernel of
                Inl e \<Rightarrow> Inl e
              | Inr c1 \<Rightarrow> Inr (zip c0 c1)))"

section \<open>Facts about the rate estimator\<close>

lemma diff_as_map:
  "map2 (-) (drop 1 ts) (butlast ts) = map (\<lambda>i. ts ! Suc i - ts ! i) [0..<length ts - 1]"
  by (rule nth_equalityI) (auto simp: nth_butlast)

lemma dt_helper_short: "length ts < 2 \<Longrightarrow> dt_helper ts = NaN"
  by (cases ts) (auto simp: dt_helper_def np_mean_def)

lemma dt_helper_constant:
  assumes "2 \<le> length ts" and "\<forall>i. Suc i < length ts \<longrightarrow> ts ! Suc i - ts ! i = d"
  shows "dt_helper ts = Fin d"
proof -
  have "map (\<lambda>i. ts ! Suc i - ts ! i) [0..<length ts - 1] = replicate (length ts - 1) d"
    using assms(2) by (intro nth_equalityI) auto
  then have "map2 (-) (drop 1 ts) (butlast ts) = replicate (length ts - 1) d"
    by (simp only: diff_as_map)
  moreover have "0 < length ts - 1" using assms(1) by simp
  ultimately show ?thesis
    by (simp add: dt_helper_def np_mean_def sum_list_replicate)
qed

text \<open>
  C5. For every timestamp sequence of length at least 2 whose consecutive differences
  all equal a constant \<open>d > 0\<close>, \<open>dt_helper\<close> returns the mean difference \<open>d\<close> and its
  reciprocal, the reported frequency, is \<open>1 / d\<close>.
\<close>

theorem rate_constant_spacing:
  assumes "2 \<le> length ts" and "0 < d"
    and "\<forall>i. Suc i < length ts \<longrightarrow> ts ! Suc i - ts ! i = d"
  shows "dt_helper ts = Fin d \<and> one_over (dt_helper ts) = Fin (1 / d)"
  using dt_helper_constant [OF assms(1) assms(3)] assms(2) by simp

theorem rate_constant_spacing_witness:
  "dt_helper [0, 1/10, 2/10, 3/10] = Fin (1/10) \<and> one_over (dt_helper [0, 1/10, 2/10, 3/10]) = Fin 10"
  using rate_constant_spacing [of "[0, 1/10, 2/10, 3/10]" "1/10"]
  by (simp add: nth_Cons' less_Suc_eq)


section \<open>Facts about the image callback\<close>

lemma deque_append_last: "last (deque_append d x) = x"
  by (simp add: deque_append_def)

text \<open>
  C9. For every image message processed with the debug history enabled, the value
  appended to the camera's timestamp history is \<open>secs + secs * 1e-9\<close>, computed from
  the seconds field of the stamp alone: changing the nanoseconds field of the message
  leaves every recorded history as it is.
\<close>

theorem image_cb_history_from_secs:
  assumes "ir_is_debug self" and "cam_timestamps self cam_name = Some ts"
    and "imgmsg_to_cv2 (img_data data) = Inr img"
  shows "fst (image_cb imgmsg_to_cv2 cam_name data self) = Inr ()
    \<and> cam_timestamps (snd (image_cb imgmsg_to_cv2 cam_name data self)) cam_name
        = Some (deque_append ts
             (real_of_int (stamp_secs data) + real_of_int (stamp_secs data) * (1 / 10 ^ 9)))
    \<and> last (deque_append ts
             (real_of_int (stamp_secs data) + real_of_int (stamp_secs data) * (1 / 10 ^ 9)))
        = real_of_int (stamp_secs data) + real_of_int (stamp_secs data) * (1 / 10 ^ 9)
    \<and> (\<forall>n. cam_timestamps (snd (image_cb imgmsg_to_cv2 cam_name (data\<lparr>stamp_nsecs := n\<rparr>) self))
            = cam_timestamps (snd (image_cb imgmsg_to_cv2 cam_name data self)))"
  using assms by (simp add: image_cb_def Let_def deque_append_last)

theorem image_cb_history_from_secs_witness:
  "cam_timestamps (snd (image_cb Inr ''cam_high''
       \<lparr>stamp_secs = 5, stamp_nsecs = 7, img_data = ()\<rparr>
       (ImageRecorder_init True True :: unit image_recorder))) ''cam_high''
     = Some [5 + 5 / 10 ^ 9]"
  using image_cb_history_from_secs [of "ImageRecorder_init True True :: unit image_recorder"
      "''cam_high''" "[]" Inr "\<lparr>stamp_secs = 5, stamp_nsecs = 7, img_data = ()\<rparr>" "()"]
  by (simp add: ImageRecorder_init_def deque_append_def)

section \<open>Facts about interpolation\<close>

lemma broadcast_same_length: "length xs = length ys \<Longrightarrow> broadcast xs ys = Inr (xs, ys)"
  by (simp add: broadcast_def)

lemma linspace_samples:
  assumes "2 \<le> num"
  shows "linspace start stop num
     = Inr ((map (\<lambda>k. real k * ((stop - start) / real_of_int (num - 1)) + start) [0..<nat num])
              [nat num - 1 := stop])"
proof -
  let ?dv = "real_of_int (num - 1)"
  let ?delta = "stop - start"
  let ?y = "map real [0..<nat num]"
  have dv: "0 < ?dv" using assms by simp
  have "(if ?delta / ?dv = 0 then map (\<lambda>k. k / ?dv * ?delta) ?y
         else map (\<lambda>k. k * (?delta / ?dv)) ?y)
        = map (\<lambda>k. k * (?delta / ?dv)) ?y"
    by simp
  then show ?thesis
    using assms dv unfolding linspace_def Let_def
    by (simp add: comp_def del: of_int_diff)
qed

lemma linspace_vec_samples:
  assumes "2 \<le> num" and "length start = length stop"
  shows "linspace_vec start stop num
     = Inr ((map (\<lambda>k. map2 (\<lambda>s e. real k * ((e - s) / real_of_int (num - 1)) + s) start stop)
                 [0..<nat num])
              [nat num - 1 := stop])"
proof -
  let ?dv = "real_of_int (num - 1)"
  let ?delta = "map2 (-) stop start"
  let ?y = "map real [0..<nat num]"
  let ?step = "map (\<lambda>d. d / ?dv) ?delta"
  have dv: "0 < ?dv" using assms by simp
  have same: "map (\<lambda>k. map (\<lambda>d. k / ?dv * d) ?delta) ?y = map (\<lambda>k. map (\<lambda>s. k * s) ?step) ?y"
    by (simp add: comp_def)
  have rows: "map (\<lambda>row. map2 (+) row start) (map (\<lambda>k. map (\<lambda>s. k * s) ?step) ?y)
      = map (\<lambda>k. map2 (\<lambda>s e. real k * ((e - s) / ?dv) + s) start stop) [0..<nat num]"
  proof (rule nth_equalityI)
    show "length (map (\<lambda>row. map2 (+) row start) (map (\<lambda>k. map (\<lambda>s. k * s) ?step) ?y))
        = length (map (\<lambda>k. map2 (\<lambda>s e. real k * ((e - s) / ?dv) + s) start stop) [0..<nat num])"
      by simp
  next
    fix i
    assume "i < length (map (\<lambda>row. map2 (+) row start) (map (\<lambda>k. map (\<lambda>s. k * s) ?step) ?y))"
    then have i: "i < nat num" by simp
    have "map2 (+) (map (\<lambda>s. real i * s) ?step) start
            = map2 (\<lambda>s e. real i * ((e - s) / ?dv) + s) start stop"
      using assms(2) by (intro nth_equalityI) auto
    then show "map (\<lambda>row. map2 (+) row start) (map (\<lambda>k. map (\<lambda>s. k * s) ?step) ?y) ! i
        = map (\<lambda>k. map2 (\<lambda>s e. real k * ((e - s) / ?dv) + s) start stop) [0..<nat num] ! i"
      using i by simp
  qed
  have "linspace_vec start stop num
      = Inr ((map (\<lambda>row. map2 (+) row start)
               (if 0 \<in> set ?step then map (\<lambda>k. map (\<lambda>d. k / ?dv * d) ?delta) ?y
                else map (\<lambda>k. map (\<lambda>s. k * s) ?step) ?y))[nat num - 1 := stop])"
    using assms dv unfolding linspace_vec_def Let_def
    by (simp add: broadcast_same_length del: of_int_diff)
  also have "\<dots> = Inr ((map (\<lambda>row. map2 (+) row start)
                (map (\<lambda>k. map (\<lambda>s. k * s) ?step) ?y))[nat num - 1 := stop])"
    using same by presburger
  finally show ?thesis
    by (simp only: rows)
qed

lemma collect_map_Inr:
  "(\<And>x. x \<in> set xs \<Longrightarrow> f x = Inr (g x)) \<Longrightarrow> collect (map f xs) = Inr (map g xs)"
  by (induction xs) auto

lemma py_int_unit_interval: "0 < x \<Longrightarrow> x < 1 \<Longrightarrow> py_int x = 0"
  by (simp add: py_int_def floor_eq_iff)

lemma py_int_short_move: "0 < move_time \<Longrightarrow> move_time < DT \<Longrightarrow> py_int (move_time / DT) = 0"
  by (rule py_int_unit_interval) auto

lemma linspace_zero: "linspace start stop 0 = Inr []"
  by (simp add: linspace_def)

lemma linspace_vec_zero: "length start = length stop \<Longrightarrow> linspace_vec start stop 0 = Inr []"
  by (simp add: linspace_vec_def broadcast_same_length)

lemma linspace_endpoints:
  assumes "2 \<le> num"
  shows "\<exists>path. linspace start stop num = Inr path \<and> length path = nat num
           \<and> path ! 0 = start \<and> path ! (nat num - 1) = stop"
proof -
  have n: "0 < nat num - 1" "nat num - 1 < nat num" using assms by auto
  show ?thesis
    unfolding linspace_samples [OF assms] using n by (simp add: nth_list_update)
qed

lemma linspace_vec_endpoints:
  assumes "2 \<le> num" and "length start = length stop"
  shows "\<exists>path. linspace_vec start stop num = Inr path \<and> length path = nat num
           \<and> path ! 0 = start \<and> path ! (nat num - 1) = stop"
proof -
  have n: "0 < nat num - 1" "nat num - 1 < nat num" using assms by auto
  have first: "map2 (\<lambda>s e. real 0 * ((e - s) / real_of_int (num - 1)) + s) start stop = start"
    using assms(2) by (intro nth_equalityI) auto
  show ?thesis
    unfolding linspace_vec_samples [OF assms] using n first
    by (simp add: nth_list_update del: of_int_diff)
qed

lemma dispatch_step_ok:
  assumes "\<And>i. i \<in> set ids \<Longrightarrow> i < length traj_list \<and> t < length (traj_list ! i)"
  shows "dispatch_step send traj_list t ids issued
           = (Inr (), issued @ map (\<lambda>i. send i (traj_list ! i ! t)) ids)"
  using assms by (induction ids arbitrary: issued) auto

lemma dispatch_step_short:
  assumes "\<And>i. i \<in> set ids \<Longrightarrow> i < length traj_list \<and> t < length (traj_list ! i)"
    and "length traj_list \<le> j"
  shows "dispatch_step send traj_list t (ids @ j # rest) issued
           = (Inl IndexError, issued @ map (\<lambda>i. send i (traj_list ! i ! t)) ids)"
  using assms by (induction ids arbitrary: issued) auto

lemma playback_ok:
  assumes "\<forall>i \<in> set ids. \<forall>t \<in> set ts. i < length traj_list \<and> t < length (traj_list ! i)"
    and "0 \<le> DT"
  shows "playback DT send traj_list ids ts issued
           = (Inr (), issued @ concat (map (\<lambda>t. map (\<lambda>i. send i (traj_list ! i ! t)) ids @ [Sleep DT]) ts))"
  using assms
proof (induction ts arbitrary: issued)
  case Nil
  then show ?case by simp
next
  case (Cons t ts)
  have "dispatch_step send traj_list t ids issued
           = (Inr (), issued @ map (\<lambda>i. send i (traj_list ! i ! t)) ids)"
    using Cons.prems(1) by (intro dispatch_step_ok) simp
  moreover have "playback DT send traj_list ids ts (issued @ map (\<lambda>i. send i (traj_list ! i ! t)) ids @ [Sleep DT])
      = (Inr (), (issued @ map (\<lambda>i. send i (traj_list ! i ! t)) ids @ [Sleep DT])
           @ concat (map (\<lambda>t. map (\<lambda>i. send i (traj_list ! i ! t)) ids @ [Sleep DT]) ts))"
    using Cons.prems by (intro Cons.IH) auto
  ultimately show ?case using Cons.prems(2) by simp
qed

lemma collect_zip:
  assumes "\<forall>i < min (length cs) (length ts). \<exists>p. f (cs ! i) (ts ! i) = Inr p"
  shows "\<exists>traj. collect (map (\<lambda>(c, t). f c t) (zip cs ts)) = Inr traj
           \<and> length traj = min (length cs) (length ts)
           \<and> (\<forall>i < length traj. f (cs ! i) (ts ! i) = Inr (traj ! i))"
proof -
  let ?h = "\<lambda>(c, t). f c t"
  let ?g = "\<lambda>x. projr (?h x)"
  have "?h x = Inr (?g x)" if "x \<in> set (zip cs ts)" for x
  proof -
    from that obtain i where "i < min (length cs) (length ts)" "x = (cs ! i, ts ! i)"
      by (auto simp: in_set_zip)
    with assms show ?thesis by auto
  qed
  then have eq: "collect (map ?h (zip cs ts)) = Inr (map ?g (zip cs ts))"
    by (rule collect_map_Inr)
  have "f (cs ! i) (ts ! i) = Inr (map ?g (zip cs ts) ! i)"
    if "i < min (length cs) (length ts)" for i
    using assms that by auto
  then show ?thesis using eq by simp
qed

lemma playback_short:
  assumes "length traj_list < nb" and "\<forall>i < length traj_list. t < length (traj_list ! i)"
  shows "playback DT send traj_list [0..<nb] (t # ts) issued
           = (Inl IndexError, issued @ map (\<lambda>i. send i (traj_list ! i ! t)) [0..<length traj_list])"
proof -
  have split: "[0..<nb] = [0..<length traj_list] @ length traj_list # [Suc (length traj_list)..<nb]"
    using assms(1) by (metis less_imp_le_nat upt_add_eq_append upt_conv_Cons zero_le le_add_diff_inverse)
  have "dispatch_step send traj_list t
          ([0..<length traj_list] @ length traj_list # [Suc (length traj_list)..<nb]) issued
        = (Inl IndexError, issued @ map (\<lambda>i. send i (traj_list ! i ! t)) [0..<length traj_list])"
    using assms(2) by (intro dispatch_step_short) auto
  then show ?thesis by (simp add: split [symmetric])
qed

lemma playback_all:
  assumes "nb \<le> length traj_list" and "\<forall>i < nb. length (traj_list ! i) = n" and "0 \<le> DT"
  shows "playback DT send traj_list [0..<nb] [0..<n] []
           = (Inr (), concat (map (\<lambda>t. map (\<lambda>i. send i (traj_list ! i ! t)) [0..<nb] @ [Sleep DT]) [0..<n]))"
  using playback_ok [of "[0..<nb]" "[0..<n]" traj_list DT send "[]"] assms by auto

lemma linspace_first:
  assumes "1 \<le> num"
  shows "\<exists>path. linspace start stop num = Inr path \<and> length path = nat num \<and> path ! 0 = start"
proof (cases "num = 1")
  case True
  then show ?thesis by (simp add: linspace_def)
next
  case False
  with assms have "2 \<le> num" by simp
  from linspace_endpoints [OF this] show ?thesis by blast
qed

lemma linspace_vec_first:
  assumes "1 \<le> num" and "length start = length stop"
  shows "\<exists>path. linspace_vec start stop num = Inr path \<and> length path = nat num \<and> path ! 0 = start"
proof (cases "num = 1")
  case True
  have zero: "map2 (+) (map f zs) start = start"
    if "\<forall>z. f z = 0" and "length zs = length start" for f :: "real \<times> real \<Rightarrow> real" and zs
    using that by (intro nth_equalityI) (auto simp: split_paired_all simp del: split_paired_All)
  show ?thesis
    using True assms(2) by (simp add: linspace_vec_def broadcast_same_length zero)
next
  case False
  with assms have "2 \<le> num" by simp
  from linspace_vec_endpoints [OF this assms(2)] show ?thesis by blast
qed

lemma arms_traj_list_first:
  assumes "1 \<le> num"
    and "\<forall>i < min (length bot_list) (length target_pose_list).
           length (get_arm_joint_positions (bot_list ! i)) = length (target_pose_list ! i)"
  shows "\<exists>traj_list. arms_traj_list bot_list target_pose_list num = Inr traj_list
           \<and> length traj_list = min (length bot_list) (length target_pose_list)
           \<and> (\<forall>i < length traj_list. length (traj_list ! i) = nat num
                 \<and> traj_list ! i ! 0 = get_arm_joint_positions (bot_list ! i))"
proof -
  let ?cs = "map get_arm_joint_positions bot_list"
  let ?f = "\<lambda>c t. linspace_vec c t num"
  have ok: "\<exists>p. ?f (?cs ! i) (target_pose_list ! i) = Inr p"
    if "i < min (length ?cs) (length target_pose_list)" for i
    using linspace_vec_first [OF assms(1), of "?cs ! i" "target_pose_list ! i"] assms(2) that
    by auto
  then obtain traj_list where t:
    "collect (map (\<lambda>(c, t). ?f c t) (zip ?cs target_pose_list)) = Inr traj_list"
    "length traj_list = min (length ?cs) (length target_pose_list)"
    "\<forall>i < length traj_list. ?f (?cs ! i) (target_pose_list ! i) = Inr (traj_list ! i)"
    using collect_zip [of ?cs target_pose_list ?f] by blast
  have "length (traj_list ! i) = nat num \<and> traj_list ! i ! 0 = get_arm_joint_positions (bot_list ! i)"
    if "i < length traj_list" for i
    using linspace_vec_first [OF assms(1), of "?cs ! i" "target_pose_list ! i"] assms(2) t(2,3) that
    by auto
  with t(1,2) show ?thesis by (simp add: arms_traj_list_def)
qed

lemma arms_traj_list_last:
  assumes "2 \<le> num"
    and "\<forall>i < min (length bot_list) (length target_pose_list).
           length (get_arm_joint_positions (bot_list ! i)) = length (target_pose_list ! i)"
    and "arms_traj_list bot_list target_pose_list num = Inr traj_list"
    and "i < length traj_list"
  shows "last (traj_list ! i) = target_pose_list ! i"
proof -
  let ?cs = "map get_arm_joint_positions bot_list"
  let ?f = "\<lambda>c t. linspace_vec c t num"
  have ok: "\<exists>p. ?f (?cs ! i) (target_pose_list ! i) = Inr p"
    if "i < min (length ?cs) (length target_pose_list)" for i
    using linspace_vec_endpoints [OF assms(1), of "?cs ! i" "target_pose_list ! i"] assms(2) that
    by auto
  then obtain tl where t:
    "collect (map (\<lambda>(c, t). ?f c t) (zip ?cs target_pose_list)) = Inr tl"
    "length tl = min (length ?cs) (length target_pose_list)"
    "\<forall>i < length tl. ?f (?cs ! i) (target_pose_list ! i) = Inr (tl ! i)"
    using collect_zip [of ?cs target_pose_list ?f] by blast
  from t(1) assms(3) have eq: "tl = traj_list" by (simp add: arms_traj_list_def)
  obtain path where p: "?f (?cs ! i) (target_pose_list ! i) = Inr path" "length path = nat num"
    "path ! (nat num - 1) = target_pose_list ! i"
    using linspace_vec_endpoints [OF assms(1), of "?cs ! i" "target_pose_list ! i"] assms(2,4) t(2) eq
    by auto
  from t(3) eq assms(4) p(1) have "traj_list ! i = path" by auto
  moreover have "path \<noteq> []" using p(2) assms(1) by auto
  ultimately show ?thesis using p(2,3) by (simp add: last_conv_nth)
qed

lemma gripper_positions_ok:
  assumes "\<forall>b \<in> set bot_list. 6 < length (gripper_position b)"
  shows "collect (map get_arm_gripper_positions bot_list)
           = Inr (map (\<lambda>b. gripper_position b ! 6) bot_list)"
  using assms by (intro collect_map_Inr) (simp add: get_arm_gripper_positions_def)

lemma grippers_traj_list_first:
  assumes "1 \<le> num" and "\<forall>b \<in> set bot_list. 6 < length (gripper_position b)"
  shows "\<exists>traj_list. grippers_traj_list bot_list target_pose_list num = Inr traj_list
           \<and> length traj_list = min (length bot_list) (length target_pose_list)
           \<and> (\<forall>i < length traj_list. length (traj_list ! i) = nat num
                 \<and> traj_list ! i ! 0 = gripper_position (bot_list ! i) ! 6)"
proof -
  let ?cs = "map (\<lambda>b. gripper_position b ! 6) bot_list"
  let ?f = "\<lambda>c t. linspace c t num"
  have ok: "\<exists>p. ?f (?cs ! i) (target_pose_list ! i) = Inr p"
    if "i < min (length ?cs) (length target_pose_list)" for i
    using linspace_first [OF assms(1), of "?cs ! i" "target_pose_list ! i"] by auto
  then obtain traj_list where t:
    "collect (map (\<lambda>(c, t). ?f c t) (zip ?cs target_pose_list)) = Inr traj_list"
    "length traj_list = min (length ?cs) (length target_pose_list)"
    "\<forall>i < length traj_list. ?f (?cs ! i) (target_pose_list ! i) = Inr (traj_list ! i)"
    using collect_zip [of ?cs target_pose_list ?f] by blast
  have "length (traj_list ! i) = nat num \<and> traj_list ! i ! 0 = gripper_position (bot_list ! i) ! 6"
    if "i < length traj_list" for i
    using linspace_first [OF assms(1), of "?cs ! i" "target_pose_list ! i"] t(2,3) that
    by auto
  with t(1,2) show ?thesis
    by (simp add: grippers_traj_list_def gripper_positions_ok [OF assms(2)])
qed

lemma grippers_traj_list_last:
  assumes "2 \<le> num" and "\<forall>b \<in> set bot_list. 6 < length (gripper_position b)"
    and "grippers_traj_list bot_list target_pose_list num = Inr traj_list"
    and "i < length traj_list"
  shows "last (traj_list ! i) = target_pose_list ! i"
proof -
  let ?cs = "map (\<lambda>b. gripper_position b ! 6) bot_list"
  let ?f = "\<lambda>c t. linspace c t num"
  have ok: "\<exists>p. ?f (?cs ! i) (target_pose_list ! i) = Inr p"
    if "i < min (length ?cs) (length target_pose_list)" for i
    using linspace_endpoints [OF assms(1), of "?cs ! i" "target_pose_list ! i"] by auto
  then obtain tl where t:
    "collect (map (\<lambda>(c, t). ?f c t) (zip ?cs target_pose_list)) = Inr tl"
    "length tl = min (length ?cs) (length target_pose_list)"
    "\<forall>i < length tl. ?f (?cs ! i) (target_pose_list ! i) = Inr (tl ! i)"
    using collect_zip [of ?cs target_pose_list ?f] by blast
  from t(1) assms(3) have eq: "tl = traj_list"
    by (simp add: grippers_traj_list_def gripper_positions_ok [OF assms(2)])
  obtain path where p: "?f (?cs ! i) (target_pose_list ! i) = Inr path" "length path = nat num"
    "path ! (nat num - 1) = target_pose_list ! i"
    using linspace_endpoints [OF assms(1), of "?cs ! i" "target_pose_list ! i"] by auto
  from t(3) eq assms(4) p(1) have "traj_list ! i = path" by auto
  moreover have "path \<noteq> []" using p(2) assms(1) by auto
  ultimately show ?thesis using p(2,3) by (simp add: last_conv_nth)
qed

section \<open>Facts about playback\<close>

lemma move_arms_plays:
  assumes "0 < DT" and "0 \<le> py_int (move_time / DT)"
    and "arms_traj_list bot_list target_pose_list (py_int (move_time / DT)) = Inr traj_list"
    and "length bot_list \<le> length traj_list"
    and "\<forall>i < length bot_list. length (traj_list ! i) = nat (py_int (move_time / DT))"
  shows "move_arms DT bot_list target_pose_list move_time
           = (Inr (), concat (map (\<lambda>t. map (\<lambda>i. SetJointPositions i (traj_list ! i ! t))
                                         [0..<length bot_list] @ [Sleep DT])
                                  [0..<nat (py_int (move_time / DT))]))"
  using assms playback_all [of "length bot_list" traj_list "nat (py_int (move_time / DT))" DT SetJointPositions]
  by (simp add: move_arms_def)

lemma move_grippers_plays:
  assumes "0 < DT" and "0 \<le> py_int (move_time / DT)"
    and "grippers_traj_list bot_list target_pose_list (py_int (move_time / DT)) = Inr traj_list"
    and "length bot_list \<le> length traj_list"
    and "\<forall>i < length bot_list. length (traj_list ! i) = nat (py_int (move_time / DT))"
  shows "move_grippers DT bot_list target_pose_list move_time
           = (Inr (), concat (map (\<lambda>t. map (\<lambda>i. PublishGripper i (traj_list ! i ! t))
                                         [0..<length bot_list] @ [Sleep DT])
                                  [0..<nat (py_int (move_time / DT))]))"
  using assms playback_all [of "length bot_list" traj_list "nat (py_int (move_time / DT))" DT PublishGripper]
  by (simp add: move_grippers_def)

lemma arms_playback_endpoints:
  assumes "0 < DT" and "2 \<le> py_int (move_time / DT)"
    and "length bot_list = length target_pose_list"
    and "\<forall>i < length bot_list.
           length (get_arm_joint_positions (bot_list ! i)) = length (target_pose_list ! i)"
  shows "\<exists>traj_list.
           arms_traj_list bot_list target_pose_list (py_int (move_time / DT)) = Inr traj_list
         \<and> length traj_list = length bot_list
         \<and> (\<forall>i < length bot_list.
               length (traj_list ! i) = nat (py_int (move_time / DT))
             \<and> traj_list ! i ! 0 = get_arm_joint_positions (bot_list ! i)
             \<and> last (traj_list ! i) = target_pose_list ! i)
         \<and> move_arms DT bot_list target_pose_list move_time
             = (Inr (), concat (map (\<lambda>t. map (\<lambda>i. SetJointPositions i (traj_list ! i ! t))
                                           [0..<length bot_list] @ [Sleep DT])
                                    [0..<nat (py_int (move_time / DT))]))"
proof -
  let ?n = "py_int (move_time / DT)"
  have dims: "\<forall>i < min (length bot_list) (length target_pose_list).
           length (get_arm_joint_positions (bot_list ! i)) = length (target_pose_list ! i)"
    using assms(3,4) by simp
  have one: "1 \<le> ?n" using assms(2) by simp
  obtain traj_list where t:
    "arms_traj_list bot_list target_pose_list ?n = Inr traj_list"
    "length traj_list = length bot_list"
    "\<forall>i < length traj_list. length (traj_list ! i) = nat ?n
        \<and> traj_list ! i ! 0 = get_arm_joint_positions (bot_list ! i)"
    using arms_traj_list_first [OF one dims] assms(3) by auto
  have "last (traj_list ! i) = target_pose_list ! i" if "i < length bot_list" for i
    using arms_traj_list_last [OF assms(2) dims t(1)] that t(2) by simp
  moreover have "move_arms DT bot_list target_pose_list move_time
             = (Inr (), concat (map (\<lambda>t. map (\<lambda>i. SetJointPositions i (traj_list ! i ! t))
                                           [0..<length bot_list] @ [Sleep DT])
                                    [0..<nat ?n]))"
    using t(2,3) one by (intro move_arms_plays [OF assms(1) _ t(1)]) auto
  ultimately show ?thesis using t by auto
qed

lemma grippers_playback_endpoints:
  assumes "0 < DT" and "2 \<le> py_int (move_time / DT)"
    and "length bot_list = length target_pose_list"
    and "\<forall>b \<in> set bot_list. 6 < length (gripper_position b)"
  shows "\<exists>traj_list.
           grippers_traj_list bot_list target_pose_list (py_int (move_time / DT)) = Inr traj_list
         \<and> length traj_list = length bot_list
         \<and> (\<forall>i < length bot_list.
               length (traj_list ! i) = nat (py_int (move_time / DT))
             \<and> traj_list ! i ! 0 = gripper_position (bot_list ! i) ! 6
             \<and> last (traj_list ! i) = target_pose_list ! i)
         \<and> move_grippers DT bot_list target_pose_list move_time
             = (Inr (), concat (map (\<lambda>t. map (\<lambda>i. PublishGripper i (traj_list ! i ! t))
                                           [0..<length bot_list] @ [Sleep DT])
                                    [0..<nat (py_int (move_time / DT))]))"
proof -
  let ?n = "py_int (move_time / DT)"
  have one: "1 \<le> ?n" using assms(2) by simp
  obtain traj_list where t:
    "grippers_traj_list bot_list target_pose_list ?n = Inr traj_list"
    "length traj_list = length bot_list"
    "\<forall>i < length traj_list. length (traj_list ! i) = nat ?n
        \<and> traj_list ! i ! 0 = gripper_position (bot_list ! i) ! 6"
    using grippers_traj_list_first [OF one assms(4), of target_pose_list] assms(3) by auto
  have "last (traj_list ! i) = target_pose_list ! i" if "i < length bot_list" for i
    using grippers_traj_list_last [OF assms(2) assms(4) t(1)] that t(2) by simp
  moreover have "move_grippers DT bot_list target_pose_list move_time
             = (Inr (), concat (map (\<lambda>t. map (\<lambda>i. PublishGripper i (traj_list ! i ! t))
                                           [0..<length bot_list] @ [Sleep DT])
                                    [0..<nat ?n]))"
    using t(2,3) one by (intro move_grippers_plays [OF assms(1) _ t(1)]) auto
  ultimately show ?thesis using t by auto
qed

section \<open>Trajectory playback\<close>

text \<open>
  C1. For every playback by \<open>move_arms\<close> and by \<open>move_grippers\<close> with as many targets as
  robots and at least 2 steps, the path of every robot has exactly \<open>num_steps\<close>
  waypoints, its first waypoint is the robot's current position and its last waypoint
  is the robot's target; the call returns normally after sending, step by step, the
  waypoints of these paths. A target pose is taken to have as many joints as the
  current pose (the six joints of an arm), and a robot read by \<open>move_grippers\<close> to
  report the seventh position that \<open>get_arm_gripper_positions\<close> reads.
\<close>

theorem trajectory_endpoints:
  assumes "0 < DT" and "2 \<le> py_int (move_time / DT)"
  shows "(length bot_list = length arm_targets
          \<and> (\<forall>i < length bot_list.
                length (get_arm_joint_positions (bot_list ! i)) = length (arm_targets ! i))
          \<longrightarrow> (\<exists>traj_list.
                 arms_traj_list bot_list arm_targets (py_int (move_time / DT)) = Inr traj_list
               \<and> length traj_list = length bot_list
               \<and> (\<forall>i < length bot_list.
                     length (traj_list ! i) = nat (py_int (move_time / DT))
                   \<and> traj_list ! i ! 0 = get_arm_joint_positions (bot_list ! i)
                   \<and> last (traj_list ! i) = arm_targets ! i)
               \<and> move_arms DT bot_list arm_targets move_time
                   = (Inr (), concat (map (\<lambda>t. map (\<lambda>i. SetJointPositions i (traj_list ! i ! t))
                                                 [0..<length bot_list] @ [Sleep DT])
                                          [0..<nat (py_int (move_time / DT))]))))
       \<and> (length bot_list = length gripper_targets
          \<and> (\<forall>b \<in> set bot_list. 6 < length (gripper_position b))
          \<longrightarrow> (\<exists>traj_list.
                 grippers_traj_list bot_list gripper_targets (py_int (move_time / DT)) = Inr traj_list
               \<and> length traj_list = length bot_list
               \<and> (\<forall>i < length bot_list.
                     length (traj_list ! i) = nat (py_int (move_time / DT))
                   \<and> traj_list ! i ! 0 = gripper_position (bot_list ! i) ! 6
                   \<and> last (traj_list ! i) = gripper_targets ! i)
               \<and> move_grippers DT bot_list gripper_targets move_time
                   = (Inr (), concat (map (\<lambda>t. map (\<lambda>i. PublishGripper i (traj_list ! i ! t))
                                                 [0..<length bot_list] @ [Sleep DT])
                                          [0..<nat (py_int (move_time / DT))]))))"
  using arms_playback_endpoints [OF assms, of bot_list arm_targets]
        grippers_playback_endpoints [OF assms, of bot_list gripper_targets]
  by blast

theorem trajectory_endpoints_witness:
  "(\<exists>traj_list.
      arms_traj_list [\<lparr>arm_position = [0, 0, 0, 0, 0, 0, 0], gripper_position = [0, 0, 0, 0, 0, 0, 0]\<rparr>]
        [[1, 2, 3, 4, 5, 6]] 2 = Inr traj_list
    \<and> traj_list ! 0 ! 0 = [0, 0, 0, 0, 0, 0]
    \<and> last (traj_list ! 0) = [1, 2, 3, 4, 5, 6])
   \<and> (\<exists>traj_list.
      grippers_traj_list [\<lparr>arm_position = [0, 0, 0, 0, 0, 0, 0], gripper_position = [0, 0, 0, 0, 0, 0, 0]\<rparr>]
        [1] 2 = Inr traj_list
    \<and> traj_list ! 0 ! 0 = 0
    \<and> last (traj_list ! 0) = 1)"
proof -
  have dt: "(0 :: real) < 1 / 50" by simp
  have n: "py_int ((1 / 25) / (1 / 50)) = 2" by (simp add: py_int_def)
  then have steps: "2 \<le> py_int ((1 / 25) / (1 / 50))" by simp
  show ?thesis
    using trajectory_endpoints [OF dt steps,
        of "[\<lparr>arm_position = [0, 0, 0, 0, 0, 0, 0], gripper_position = [0, 0, 0, 0, 0, 0, 0]\<rparr>]"
           "[[1, 2, 3, 4, 5, 6]]" "[1]"]
    unfolding n
    by (simp add: get_arm_joint_positions_def, blast)
qed

text \<open>
  C6 (as the code has it). With the arm at \<open>[0,0,0,0,0,0]\<close>, the target
  \<open>[6,6,6,6,6,6]\<close>, a move time of 1.0 s and \<open>DT\<close> = 0.02 s, the path has exactly 50
  waypoints and the waypoint of index 25, the 26th command sent, is \<open>150/49\<close> in every
  joint, about 3.0612: the 50 samples include both end points, so the step is \<open>6/49\<close>
  and not \<open>6/50\<close>.
\<close>

theorem move_arms_one_second_scenario:
  "(case arms_traj_list [\<lparr>arm_position = [0, 0, 0, 0, 0, 0], gripper_position = []\<rparr>]
           [[6, 6, 6, 6, 6, 6]] (py_int (1 / 0.02)) of
      Inl e \<Rightarrow> False
    | Inr traj_list \<Rightarrow>
        length traj_list = 1 \<and> length (traj_list ! 0) = 50
      \<and> traj_list ! 0 ! 25 = [150 / 49, 150 / 49, 150 / 49, 150 / 49, 150 / 49, 150 / 49])
   \<and> snd (move_arms 0.02 [\<lparr>arm_position = [0, 0, 0, 0, 0, 0], gripper_position = []\<rparr>]
           [[6, 6, 6, 6, 6, 6]] 1) ! 50
       = SetJointPositions 0 [150 / 49, 150 / 49, 150 / 49, 150 / 49, 150 / 49, 150 / 49]"
  by code_simp

text \<open>
  The waypoint of index 25 of this path is not \<open>[3,3,3,3,3,3]\<close>, and none of its six
  joints is within 0.05 of 3.
\<close>

theorem waypoint_25_not_midpoint_counterexample:
  "(case arms_traj_list [\<lparr>arm_position = [0, 0, 0, 0, 0, 0], gripper_position = []\<rparr>]
           [[6, 6, 6, 6, 6, 6]] (py_int (1 / 0.02)) of
      Inl e \<Rightarrow> False
    | Inr traj_list \<Rightarrow>
        traj_list ! 0 ! 25 \<noteq> [3, 3, 3, 3, 3, 3]
      \<and> length (traj_list ! 0 ! 25) = 6
      \<and> list_all (\<lambda>x. 1 / 20 < \<bar>x - 3\<bar>) (traj_list ! 0 ! 25))"
  by code_simp

subsection \<open>A move time shorter than one step\<close>

lemma arms_traj_list_zero:
  assumes "\<forall>i < min (length bot_list) (length target_pose_list).
           length (get_arm_joint_positions (bot_list ! i)) = length (target_pose_list ! i)"
  shows "\<exists>traj_list. arms_traj_list bot_list target_pose_list 0 = Inr traj_list"
proof -
  let ?cs = "map get_arm_joint_positions bot_list"
  have "\<forall>i < min (length ?cs) (length target_pose_list).
          \<exists>p. linspace_vec (?cs ! i) (target_pose_list ! i) 0 = Inr p"
    using assms by (simp add: linspace_vec_zero)
  from collect_zip [OF this] show ?thesis
    by (auto simp: arms_traj_list_def)
qed

lemma grippers_traj_list_zero:
  assumes "\<forall>b \<in> set bot_list. 6 < length (gripper_position b)"
  shows "\<exists>traj_list. grippers_traj_list bot_list target_pose_list 0 = Inr traj_list"
proof -
  let ?cs = "map (\<lambda>b. gripper_position b ! 6) bot_list"
  have "\<forall>i < min (length ?cs) (length target_pose_list).
          \<exists>p. linspace (?cs ! i) (target_pose_list ! i) 0 = Inr p"
    by (simp add: linspace_zero)
  from collect_zip [OF this] show ?thesis
    by (auto simp: grippers_traj_list_def gripper_positions_ok [OF assms])
qed

text \<open>
  C10. For every call of \<open>move_arms\<close> or \<open>move_grippers\<close> with \<open>0 < move_time < DT\<close> the
  number of steps is 0 and no command at all is sent; on poses of matching dimension
  (for \<open>move_grippers\<close>: on robots that report a gripper position) the call returns
  normally.
\<close>

theorem short_move_time_empty_playback:
  assumes "0 < move_time" and "move_time < DT"
  shows "snd (move_arms DT bot_list arm_targets move_time) = []
       \<and> snd (move_grippers DT bot_list gripper_targets move_time) = []
       \<and> ((\<forall>i < min (length bot_list) (length arm_targets).
              length (get_arm_joint_positions (bot_list ! i)) = length (arm_targets ! i))
            \<longrightarrow> move_arms DT bot_list arm_targets move_time = (Inr (), []))
       \<and> ((\<forall>b \<in> set bot_list. 6 < length (gripper_position b))
            \<longrightarrow> move_grippers DT bot_list gripper_targets move_time = (Inr (), []))"
proof -
  have n: "py_int (move_time / DT) = 0"
    using assms by (rule py_int_short_move)
  have dt: "DT \<noteq> 0" using assms by simp
  have "snd (move_arms DT bot_list arm_targets move_time) = []"
    using n dt by (simp add: move_arms_def split: sum.splits)
  moreover have "snd (move_grippers DT bot_list gripper_targets move_time) = []"
    using n dt by (simp add: move_grippers_def split: sum.splits)
  moreover have "move_arms DT bot_list arm_targets move_time = (Inr (), [])"
    if "\<forall>i < min (length bot_list) (length arm_targets).
              length (get_arm_joint_positions (bot_list ! i)) = length (arm_targets ! i)"
    using arms_traj_list_zero [OF that] n dt by (auto simp: move_arms_def)
  moreover have "move_grippers DT bot_list gripper_targets move_time = (Inr (), [])"
    if "\<forall>b \<in> set bot_list. 6 < length (gripper_position b)"
    using grippers_traj_list_zero [OF that, of gripper_targets] n dt
    by (auto simp: move_grippers_def)
  ultimately show ?thesis by blast
qed

theorem short_move_time_empty_playback_witness:
  "move_arms (1 / 50) [\<lparr>arm_position = [0, 0, 0, 0, 0, 0, 0], gripper_position = [0, 0, 0, 0, 0, 0, 0]\<rparr>]
      [[1, 2, 3, 4, 5, 6]] (1 / 100) = (Inr (), [])
   \<and> move_grippers (1 / 50) [\<lparr>arm_position = [0, 0, 0, 0, 0, 0, 0], gripper_position = [0, 0, 0, 0, 0, 0, 0]\<rparr>]
      [1] (1 / 100) = (Inr (), [])"
  using short_move_time_empty_playback [of "1 / 100" "1 / 50"
      "[\<lparr>arm_position = [0, 0, 0, 0, 0, 0, 0], gripper_position = [0, 0, 0, 0, 0, 0, 0]\<rparr>]"
      "[[1, 2, 3, 4, 5, 6]]" "[1]"]
  by (simp add: get_arm_joint_positions_def)

subsection \<open>Lists of different lengths\<close>

lemma zip_take_left: "zip xs (take (length xs) ys) = zip xs ys"
proof (induction xs arbitrary: ys)
  case Nil
  then show ?case by simp
next
  case (Cons x xs)
  then show ?case by (cases ys) auto
qed

lemma arms_traj_list_take:
  "arms_traj_list bot_list (take (length bot_list) target_pose_list) num
     = arms_traj_list bot_list target_pose_list num"
  using zip_take_left [of "map get_arm_joint_positions bot_list" target_pose_list]
  by (simp add: arms_traj_list_def)

lemma collect_length: "collect rs = Inr vs \<Longrightarrow> length vs = length rs"
  by (induction rs arbitrary: vs) (auto split: sum.splits)

lemma grippers_traj_list_take:
  "grippers_traj_list bot_list (take (length bot_list) target_pose_list) num
     = grippers_traj_list bot_list target_pose_list num"
proof (cases "collect (map get_arm_gripper_positions bot_list)")
  case (Inl e)
  then show ?thesis by (simp add: grippers_traj_list_def)
next
  case (Inr curr_pose_list)
  then have "length curr_pose_list = length bot_list"
    using collect_length by fastforce
  then have "zip curr_pose_list (take (length bot_list) target_pose_list)
               = zip curr_pose_list target_pose_list"
    using zip_take_left [of curr_pose_list target_pose_list] by simp
  with Inr show ?thesis by (simp add: grippers_traj_list_def)
qed

lemma move_arms_short:
  assumes "0 < DT" and "1 \<le> py_int (move_time / DT)"
    and "length target_pose_list < length bot_list"
    and "\<forall>i < length target_pose_list.
           length (get_arm_joint_positions (bot_list ! i)) = length (target_pose_list ! i)"
  shows "move_arms DT bot_list target_pose_list move_time
           = (Inl IndexError,
              map (\<lambda>i. SetJointPositions i (get_arm_joint_positions (bot_list ! i)))
                  [0..<length target_pose_list])"
proof -
  let ?n = "py_int (move_time / DT)"
  have dims: "\<forall>i < min (length bot_list) (length target_pose_list).
           length (get_arm_joint_positions (bot_list ! i)) = length (target_pose_list ! i)"
    using assms(3,4) by simp
  obtain traj_list where t:
    "arms_traj_list bot_list target_pose_list ?n = Inr traj_list"
    "length traj_list = length target_pose_list"
    "\<forall>i < length traj_list. length (traj_list ! i) = nat ?n
        \<and> traj_list ! i ! 0 = get_arm_joint_positions (bot_list ! i)"
    using arms_traj_list_first [OF assms(2) dims] assms(3) by auto
  have steps: "[0..<nat ?n] = 0 # [1..<nat ?n]"
    using assms(2) by (simp add: upt_conv_Cons)
  have "playback DT SetJointPositions traj_list [0..<length bot_list] (0 # [1..<nat ?n]) []
          = (Inl IndexError, [] @ map (\<lambda>i. SetJointPositions i (traj_list ! i ! 0)) [0..<length traj_list])"
    using t(2,3) assms(2,3) by (intro playback_short) auto
  moreover have "map (\<lambda>i. SetJointPositions i (traj_list ! i ! 0)) [0..<length traj_list]
      = map (\<lambda>i. SetJointPositions i (get_arm_joint_positions (bot_list ! i))) [0..<length target_pose_list]"
    using t(2,3) by simp
  ultimately show ?thesis
    using assms(1) t(1) steps by (simp add: move_arms_def)
qed

lemma move_grippers_short:
  assumes "0 < DT" and "1 \<le> py_int (move_time / DT)"
    and "length target_pose_list < length bot_list"
    and "\<forall>b \<in> set bot_list. 6 < length (gripper_position b)"
  shows "move_grippers DT bot_list target_pose_list move_time
           = (Inl IndexError,
              map (\<lambda>i. PublishGripper i (gripper_position (bot_list ! i) ! 6))
                  [0..<length target_pose_list])"
proof -
  let ?n = "py_int (move_time / DT)"
  obtain traj_list where t:
    "grippers_traj_list bot_list target_pose_list ?n = Inr traj_list"
    "length traj_list = length target_pose_list"
    "\<forall>i < length traj_list. length (traj_list ! i) = nat ?n
        \<and> traj_list ! i ! 0 = gripper_position (bot_list ! i) ! 6"
    using grippers_traj_list_first [OF assms(2) assms(4), of target_pose_list] assms(3) by auto
  have steps: "[0..<nat ?n] = 0 # [1..<nat ?n]"
    using assms(2) by (simp add: upt_conv_Cons)
  have "playback DT PublishGripper traj_list [0..<length bot_list] (0 # [1..<nat ?n]) []
          = (Inl IndexError, [] @ map (\<lambda>i. PublishGripper i (traj_list ! i ! 0)) [0..<length traj_list])"
    using t(2,3) assms(2,3) by (intro playback_short) auto
  moreover have "map (\<lambda>i. PublishGripper i (traj_list ! i ! 0)) [0..<length traj_list]
      = map (\<lambda>i. PublishGripper i (gripper_position (bot_list ! i) ! 6)) [0..<length target_pose_list]"
    using t(2,3) by simp
  ultimately show ?thesis
    using assms(1) t(1) steps by (simp add: move_grippers_def)
qed

text \<open>
  C2 (as the code has it). Neither player compares the lengths of its two lists.
  Targets beyond the number of robots are never read: the call behaves as on the
  target list cut to the number of robots. With fewer targets than robots and at least
  one step, the call raises \<open>IndexError\<close> in step 0, after it has sent the first waypoint
  to each robot that has a target.
\<close>

theorem length_mismatch_behaviour:
  assumes "0 < DT"
  shows "move_arms DT bot_list arm_targets move_time
           = move_arms DT bot_list (take (length bot_list) arm_targets) move_time
       \<and> move_grippers DT bot_list gripper_targets move_time
           = move_grippers DT bot_list (take (length bot_list) gripper_targets) move_time
       \<and> (length arm_targets < length bot_list \<and> 1 \<le> py_int (move_time / DT)
            \<and> (\<forall>i < length arm_targets.
                  length (get_arm_joint_positions (bot_list ! i)) = length (arm_targets ! i))
          \<longrightarrow> move_arms DT bot_list arm_targets move_time
                = (Inl IndexError,
                   map (\<lambda>i. SetJointPositions i (get_arm_joint_positions (bot_list ! i)))
                       [0..<length arm_targets]))
       \<and> (length gripper_targets < length bot_list \<and> 1 \<le> py_int (move_time / DT)
            \<and> (\<forall>b \<in> set bot_list. 6 < length (gripper_position b))
          \<longrightarrow> move_grippers DT bot_list gripper_targets move_time
                = (Inl IndexError,
                   map (\<lambda>i. PublishGripper i (gripper_position (bot_list ! i) ! 6))
                       [0..<length gripper_targets]))"
proof (intro conjI impI)
  show "move_arms DT bot_list arm_targets move_time
           = move_arms DT bot_list (take (length bot_list) arm_targets) move_time"
    by (simp add: move_arms_def arms_traj_list_take)
  show "move_grippers DT bot_list gripper_targets move_time
           = move_grippers DT bot_list (take (length bot_list) gripper_targets) move_time"
    by (simp add: move_grippers_def grippers_traj_list_take)
next
  assume "length arm_targets < length bot_list \<and> 1 \<le> py_int (move_time / DT)
            \<and> (\<forall>i < length arm_targets.
                  length (get_arm_joint_positions (bot_list ! i)) = length (arm_targets ! i))"
  then show "move_arms DT bot_list arm_targets move_time
                = (Inl IndexError,
                   map (\<lambda>i. SetJointPositions i (get_arm_joint_positions (bot_list ! i)))
                       [0..<length arm_targets])"
    using move_arms_short [OF assms] by blast
next
  assume "length gripper_targets < length bot_list \<and> 1 \<le> py_int (move_time / DT)
            \<and> (\<forall>b \<in> set bot_list. 6 < length (gripper_position b))"
  then show "move_grippers DT bot_list gripper_targets move_time
                = (Inl IndexError,
                   map (\<lambda>i. PublishGripper i (gripper_position (bot_list ! i) ! 6))
                       [0..<length gripper_targets])"
    using move_grippers_short [OF assms] by blast
qed

text \<open>
  One robot and two targets: the playback runs to its end. Two robots and one target:
  the first robot has been commanded when the call raises.
\<close>

theorem length_mismatch_counterexample:
  "move_arms (1 / 50)
      [\<lparr>arm_position = [0, 0, 0, 0, 0, 0, 0], gripper_position = [0, 0, 0, 0, 0, 0, 0]\<rparr>]
      [[1, 2, 3, 4, 5, 6], [1, 1, 1, 1, 1, 1]] (1 / 25)
     = (Inr (), [SetJointPositions 0 [0, 0, 0, 0, 0, 0], Sleep (1 / 50),
                 SetJointPositions 0 [1, 2, 3, 4, 5, 6], Sleep (1 / 50)])
   \<and> move_arms (1 / 50)
      [\<lparr>arm_position = [0, 0, 0, 0, 0, 0, 0], gripper_position = [0, 0, 0, 0, 0, 0, 0]\<rparr>,
       \<lparr>arm_position = [0, 0, 0, 0, 0, 0, 0], gripper_position = [0, 0, 0, 0, 0, 0, 0]\<rparr>]
      [[1, 2, 3, 4, 5, 6]] (1 / 25)
     = (Inl IndexError, [SetJointPositions 0 [0, 0, 0, 0, 0, 0]])
   \<and> move_grippers (1 / 50)
      [\<lparr>arm_position = [0, 0, 0, 0, 0, 0, 0], gripper_position = [0, 0, 0, 0, 0, 0, 7]\<rparr>,
       \<lparr>arm_position = [0, 0, 0, 0, 0, 0, 0], gripper_position = [0, 0, 0, 0, 0, 0, 0]\<rparr>]
      [1] (1 / 25)
     = (Inl IndexError, [PublishGripper 0 7])"
  by code_simp

theorem length_mismatch_behaviour_witness:
  "move_arms (1 / 50)
      [\<lparr>arm_position = [0, 0, 0, 0, 0, 0, 0], gripper_position = [0, 0, 0, 0, 0, 0, 7]\<rparr>,
       \<lparr>arm_position = [0, 0, 0, 0, 0, 0, 0], gripper_position = [0, 0, 0, 0, 0, 0, 0]\<rparr>]
      [[1, 2, 3, 4, 5, 6]] (1 / 25)
     = (Inl IndexError, [SetJointPositions 0 [0, 0, 0, 0, 0, 0]])
   \<and> move_grippers (1 / 50)
      [\<lparr>arm_position = [0, 0, 0, 0, 0, 0, 0], gripper_position = [0, 0, 0, 0, 0, 0, 7]\<rparr>,
       \<lparr>arm_position = [0, 0, 0, 0, 0, 0, 0], gripper_position = [0, 0, 0, 0, 0, 0, 0]\<rparr>]
      [1] (1 / 25)
     = (Inl IndexError, [PublishGripper 0 7])"
proof -
  have dt: "(0 :: real) < 1 / 50" by simp
  have n: "py_int ((1 / 25) / (1 / 50)) = 2" by (simp add: py_int_def)
  show ?thesis
    using length_mismatch_behaviour [OF dt,
        of "[\<lparr>arm_position = [0, 0, 0, 0, 0, 0, 0], gripper_position = [0, 0, 0, 0, 0, 0, 7]\<rparr>,
             \<lparr>arm_position = [0, 0, 0, 0, 0, 0, 0], gripper_position = [0, 0, 0, 0, 0, 0, 0]\<rparr>]"
           "[[1, 2, 3, 4, 5, 6]]" "1 / 25" "[1]"] n
    by (simp add: get_arm_joint_positions_def)
qed

section \<open>Diagnostics on a short history\<close>

lemma image_diagnostics_loop_ok:
  assumes "\<forall>c \<in> set names. cam_timestamps self c \<noteq> None"
  shows "image_diagnostics_loop self names out
           = (Inr (), out @ map (\<lambda>c. (c, one_over (dt_helper (the (cam_timestamps self c))))) names)"
  using assms by (induction names arbitrary: out) auto

lemma one_over_short: "length ts < 2 \<Longrightarrow> one_over (dt_helper ts) = NaN"
  by (simp add: dt_helper_short)

text \<open>
  C4 (as the code has it). On a timestamp history with fewer than 2 entries neither
  \<open>print_diagnostics\<close> raises or reports the stream as unavailable: each reports the
  frequency of that stream as nan, the reciprocal of the mean of an empty array of
  differences. This holds for every \<open>ImageRecorder\<close> whose cameras all have a history
  and every \<open>Recorder\<close> that has its three histories, that is, for recorders built in
  debug mode.
\<close>

theorem short_history_reports_nan:
  "((\<forall>c \<in> set (camera_names self). cam_timestamps self c \<noteq> None) \<longrightarrow>
      (\<exists>out. ImageRecorder_print_diagnostics self = (Inr (), out)
           \<and> map fst out = camera_names self
           \<and> (\<forall>i < length out.
                 length (the (cam_timestamps self (camera_names self ! i))) < 2
                   \<longrightarrow> snd (out ! i) = NaN)))
   \<and> (joint_timestamps r = Some jts \<and> arm_command_timestamps r = Some ats
        \<and> gripper_command_timestamps r = Some gts \<longrightarrow>
      (\<exists>joint_freq arm_command_freq gripper_command_freq.
           Recorder_print_diagnostics r
             = Inr [(''joint_freq'', joint_freq), (''arm_command_freq'', arm_command_freq),
                    (''gripper_command_freq'', gripper_command_freq)]
         \<and> (length jts < 2 \<longrightarrow> joint_freq = NaN)
         \<and> (length ats < 2 \<longrightarrow> arm_command_freq = NaN)
         \<and> (length gts < 2 \<longrightarrow> gripper_command_freq = NaN)))"
proof (intro conjI impI)
  assume a: "\<forall>c \<in> set (camera_names self). cam_timestamps self c \<noteq> None"
  let ?out = "map (\<lambda>c. (c, one_over (dt_helper (the (cam_timestamps self c))))) (camera_names self)"
  have "ImageRecorder_print_diagnostics self = (Inr (), ?out)"
    using image_diagnostics_loop_ok [OF a, of "[]"]
    by (simp add: ImageRecorder_print_diagnostics_def)
  moreover have "map fst ?out = camera_names self"
    by (simp add: comp_def)
  moreover have "\<forall>i < length ?out.
      length (the (cam_timestamps self (camera_names self ! i))) < 2 \<longrightarrow> snd (?out ! i) = NaN"
    by (simp add: one_over_short)
  ultimately show "\<exists>out. ImageRecorder_print_diagnostics self = (Inr (), out)
           \<and> map fst out = camera_names self
           \<and> (\<forall>i < length out.
                 length (the (cam_timestamps self (camera_names self ! i))) < 2
                   \<longrightarrow> snd (out ! i) = NaN)"
    by blast
next
  assume "joint_timestamps r = Some jts \<and> arm_command_timestamps r = Some ats
        \<and> gripper_command_timestamps r = Some gts"
  then show "\<exists>joint_freq arm_command_freq gripper_command_freq.
           Recorder_print_diagnostics r
             = Inr [(''joint_freq'', joint_freq), (''arm_command_freq'', arm_command_freq),
                    (''gripper_command_freq'', gripper_command_freq)]
         \<and> (length jts < 2 \<longrightarrow> joint_freq = NaN)
         \<and> (length ats < 2 \<longrightarrow> arm_command_freq = NaN)
         \<and> (length gts < 2 \<longrightarrow> gripper_command_freq = NaN)"
    by (simp add: Recorder_print_diagnostics_def one_over_short)
qed

text \<open>
  Two recorders built in debug mode and asked before any message arrived: every line
  is nan and nothing is raised.
\<close>

theorem short_history_silent_nan_counterexample:
  "ImageRecorder_print_diagnostics (ImageRecorder_init True True :: unit image_recorder)
     = (Inr (), [(''cam_high'', NaN), (''cam_left_wrist'', NaN), (''cam_right_wrist'', NaN)])
   \<and> Recorder_print_diagnostics (Recorder_init True)
     = Inr [(''joint_freq'', NaN), (''arm_command_freq'', NaN), (''gripper_command_freq'', NaN)]"
  by code_simp

theorem short_history_reports_nan_witness:
  "(\<exists>out. ImageRecorder_print_diagnostics
             ((ImageRecorder_init True True :: unit image_recorder)
                \<lparr>cam_timestamps := (cam_timestamps (ImageRecorder_init True True))(''cam_high'' \<mapsto> [7])\<rparr>)
           = (Inr (), out) \<and> snd (out ! 0) = NaN)
   \<and> (\<exists>joint_freq arm_command_freq gripper_command_freq.
         Recorder_print_diagnostics
           \<lparr>rec_is_debug = True, joint_timestamps = Some [1],
            arm_command_timestamps = Some [], gripper_command_timestamps = Some [0, 1]\<rparr>
           = Inr [(''joint_freq'', joint_freq), (''arm_command_freq'', arm_command_freq),
                  (''gripper_command_freq'', gripper_command_freq)]
         \<and> joint_freq = NaN \<and> arm_command_freq = NaN)"
  using short_history_reports_nan [of
      "(ImageRecorder_init True True :: unit image_recorder)
         \<lparr>cam_timestamps := (cam_timestamps (ImageRecorder_init True True))(''cam_high'' \<mapsto> [7])\<rparr>"
      "\<lparr>rec_is_debug = True, joint_timestamps = Some [1],
        arm_command_timestamps = Some [], gripper_command_timestamps = Some [0, 1]\<rparr>"
      "[1]" "[]" "[0, 1]"]
  by (auto simp: ImageRecorder_init_def)

section \<open>The length of the smoothed sequence\<close>

lemma length_convolve_full: "length (convolve_full a v) = length a + length v - 1"
  by (simp add: convolve_full_def)

lemma np_convolve_same_length:
  assumes "a \<noteq> []" and "v \<noteq> []"
  shows "\<exists>r. np_convolve_same a v = Inr r \<and> length r = max (length a) (length v)"
proof -
  have mid: "n \<le> n + m - Suc ((m - Suc 0) div 2)" if "0 < m" for n m :: nat
  proof -
    have "(m - Suc 0) div 2 \<le> m - Suc 0" by (rule div_le_dividend)
    with that show ?thesis by linarith
  qed
  show ?thesis
    using assms mid [of "length a" "length v"] mid [of "length v" "length a"]
    by (auto simp: np_convolve_same_def length_convolve_full min_def)
qed

text \<open>
  C3 (as the code has it). For every non-empty sequence of two-component base actions,
  \<open>smooth_base_action\<close> returns a sequence of length \<open>max n 5\<close>, where \<open>n\<close> is the
  length of the input: the length of the input from 5 entries on, and 5 for an input
  of 1 to 4 entries, where numpy's same-mode convolution takes the length of the
  longer argument, the kernel.
\<close>

theorem smooth_base_action_length:
  assumes "base_action \<noteq> []"
  shows "\<exists>out. smooth_base_action base_action = Inr out
           \<and> length out = max (length base_action) 5"
proof -
  let ?kernel = "replicate 5 (1 / 5 :: real)"
  obtain c0 where c0: "np_convolve_same (map fst base_action) ?kernel = Inr c0"
      "length c0 = max (length base_action) 5"
    using np_convolve_same_length [of "map fst base_action" ?kernel] assms by auto
  obtain c1 where c1: "np_convolve_same (map snd base_action) ?kernel = Inr c1"
      "length c1 = max (length base_action) 5"
    using np_convolve_same_length [of "map snd base_action" ?kernel] assms by auto
  show ?thesis
    using c0 c1 by (simp add: smooth_base_action_def)
qed

text \<open>A single action is smoothed into five rows.\<close>

theorem smooth_short_input_counterexample:
  "smooth_base_action [(1, 1)] = Inr (replicate 5 (1 / 5, 1 / 5))
   \<and> length (replicate 5 (1 / 5 :: real, 1 / 5 :: real)) \<noteq> length [(1 :: real, 1 :: real)]"
  by code_simp

theorem smooth_base_action_length_witness:
  "\<exists>out. smooth_base_action [(1, 1), (2, 2), (3, 3), (4, 4), (5, 5), (6, 6)] = Inr out
         \<and> length out = 6"
  using smooth_base_action_length [of "[(1, 1), (2, 2), (3, 3), (4, 4), (5, 5), (6, 6)]"]
  by (simp add: eval_nat_numeral)

section \<open>The base-action transforms\<close>

text \<open>
  C7. For every two-component base action \<open>(linear_vel, angular_vel)\<close> and
  coefficient \<open>c\<close>, \<open>calibrate_linear_vel\<close> returns the vector with linear component
  \<open>linear_vel - c * angular_vel\<close> and the angular component unchanged; with the
  coefficient left unspecified it returns the action itself.
\<close>

theorem calibrate_linear_vel_spec:
  "calibrate_linear_vel [linear_vel, angular_vel] (Some c)
     = Inr [linear_vel - c * angular_vel, angular_vel]
   \<and> calibrate_linear_vel [linear_vel, angular_vel] None = Inr [linear_vel, angular_vel]"
  by (simp add: calibrate_linear_vel_def)

text \<open>
  C8. For every two-component base action, \<open>postprocess_base_action\<close> returns the
  linear velocity unchanged and the angular velocity scaled by 0.9; in particular
  \<open>[1.0, 1.0]\<close> becomes \<open>[1.0, 0.9]\<close>.
\<close>

theorem postprocess_base_action_spec:
  "postprocess_base_action [linear_vel, angular_vel] = Inr [linear_vel, 0.9 * angular_vel]
   \<and> postprocess_base_action [1, 1] = Inr [1, 0.9]"
  by (simp add: postprocess_base_action_def)


end
